theory Spec2Isabelle
  imports Complex_Main "HOL-Library.Word"
begin

section \<open>Drawing surface\<close>

text \<open>
  The visualizer components of \<^verbatim>\<open>src/app/components\<close> draw on a 2D canvas from a
  \<^verbatim>\<open>Uint8Array\<close> snapshot. A snapshot is a list of bytes. JavaScript numbers are
  modelled as reals (rounding of doubles is not modelled); the one non-finite value the
  draw routines can put on the canvas, \<^verbatim>\<open>NaN\<close>, is kept apart: reading a typed
  array past its end yields \<^verbatim>\<open>undefined\<close>, and \<^verbatim>\<open>undefined / 255\<close> is
  \<^verbatim>\<open>NaN\<close>.
\<close>

type_synonym byte = "8 word"

type_synonym js_error = string

datatype jsnum = Fin real | NaN

record RenderConfig =
  width :: real
  height :: real
  barWidth :: real
  barGap :: real
  barColor :: string
  backgroundColor :: string

datatype fill_style =
    Color string
  | LinearGradient jsnum jsnum jsnum jsnum "(real \<times> string) list"

text \<open>The calls made on the \<^verbatim>\<open>CanvasRenderingContext2D\<close>, in the order they are made.\<close>

datatype canvas_op =
    ClearRect real real real real
  | FillStyle fill_style
  | FillRect jsnum jsnum jsnum jsnum
  | LineWidth real
  | StrokeStyle string
  | BeginPath
  | MoveTo real real
  | LineTo real real
  | Stroke

text \<open>The three calls that open both draw routines: clear, then refill the background.\<close>

definition clearBackground :: "RenderConfig \<Rightarrow> canvas_op list" where
  "clearBackground cfg =
     [ClearRect 0 0 (width cfg) (height cfg),
      FillStyle (Color (backgroundColor cfg)),
      FillRect (Fin 0) (Fin 0) (Fin (width cfg)) (Fin (height cfg))]"

subsection \<open>drawWaveform\<close>

text \<open>
  The \<^verbatim>\<open>for\<close> loop of \<^verbatim>\<open>drawWaveform\<close>: \<open>i\<close> is the loop counter, \<open>x\<close> the running
  abscissa (\<^verbatim>\<open>x += sliceWidth\<close>), the list the samples \<^verbatim>\<open>data[i..]\<close> still to plot.
\<close>

fun waveformLoop :: "RenderConfig \<Rightarrow> real \<Rightarrow> nat \<Rightarrow> real \<Rightarrow> byte list \<Rightarrow> canvas_op list" where
  "waveformLoop cfg sliceWidth i x [] = []"
| "waveformLoop cfg sliceWidth i x (s # rest) =
     (let v = real (unat s) / 128;
          y = (v * height cfg) / 2
      in (if i = 0 then MoveTo x y else LineTo x y)
           # waveformLoop cfg sliceWidth (Suc i) (x + sliceWidth) rest)"

text \<open>
  With an empty snapshot \<^verbatim>\<open>sliceWidth\<close> is \<^verbatim>\<open>width / 0\<close>; the loop body, its only
  reader, does not run then.
\<close>

definition drawWaveform :: "RenderConfig \<Rightarrow> byte list \<Rightarrow> canvas_op list" where
  "drawWaveform cfg data =
     clearBackground cfg
     @ [LineWidth 2, StrokeStyle (barColor cfg), BeginPath]
     @ (let sliceWidth = width cfg / real (length data)
        in waveformLoop cfg sliceWidth 0 0 data)
     @ [LineTo (width cfg) (height cfg / 2), Stroke]"

subsection \<open>drawSpectrum\<close>

text \<open>\<^verbatim>\<open>data[dataIndex]\<close> on a \<^verbatim>\<open>Uint8Array\<close>: \<^verbatim>\<open>undefined\<close> out of range.\<close>

definition typedArrayGet :: "byte list \<Rightarrow> int \<Rightarrow> byte option" where
  "typedArrayGet data k =
     (if 0 \<le> k \<and> k < int (length data) then Some (data ! nat k) else None)"

text \<open>\<^verbatim>\<open>(value / 255) * height\<close>, and \<^verbatim>\<open>height - barHeight\<close>.\<close>

definition scaleValue :: "byte option \<Rightarrow> real \<Rightarrow> jsnum" where
  "scaleValue v h = (case v of None \<Rightarrow> NaN | Some b \<Rightarrow> Fin ((real (unat b) / 255) * h))"

definition minusFrom :: "real \<Rightarrow> jsnum \<Rightarrow> jsnum" where
  "minusFrom h n = (case n of NaN \<Rightarrow> NaN | Fin r \<Rightarrow> Fin (h - r))"

text \<open>
  \<^verbatim>\<open>ctx.createLinearGradient(x0, y0, x1, y1)\<close>: the browser throws a
  \<^verbatim>\<open>TypeError\<close> when an argument is not finite, and answers the gradient on that line
  otherwise.
\<close>

definition createLinearGradient ::
  "jsnum \<Rightarrow> jsnum \<Rightarrow> jsnum \<Rightarrow> jsnum \<Rightarrow> js_error + (jsnum \<times> jsnum \<times> jsnum \<times> jsnum)" where
  "createLinearGradient x0 y0 x1 y1 =
     (if x0 = NaN \<or> y0 = NaN \<or> x1 = NaN \<or> y1 = NaN then Inl ''TypeError''
      else Inr (x0, y0, x1, y1))"

text \<open>
  One iteration of the loop of \<^verbatim>\<open>drawSpectrum\<close>: the calls it makes on the canvas,
  or the error it throws before making any. The second gradient stop is the only
  difference between the copies of the routine (\<^verbatim>\<open>'#00cc66'\<close> in AudioVisualizer,
  \<^verbatim>\<open>'#1d4ed8'\<close> in the others), so it is a parameter.
\<close>

definition spectrumBar ::
  "string \<Rightarrow> RenderConfig \<Rightarrow> byte list \<Rightarrow> int \<Rightarrow> int \<Rightarrow> js_error + canvas_op list" where
  "spectrumBar shade cfg data step i =
     (let dataIndex = i * step;
          v = typedArrayGet data dataIndex;
          barHeight = scaleValue v (height cfg);
          x = real_of_int i * (barWidth cfg + barGap cfg);
          y = minusFrom (height cfg) barHeight
      in case createLinearGradient (Fin x) y (Fin x) (Fin (height cfg)) of
           Inl e \<Rightarrow> Inl e
         | Inr (x0, y0, x1, y1) \<Rightarrow>
             Inr [FillStyle (LinearGradient x0 y0 x1 y1 [(0, barColor cfg), (1, shade)]),
                  FillRect (Fin x) y (Fin (barWidth cfg)) barHeight])"

text \<open>
  The loop: the calls made, and the error that ended it if an iteration threw.
\<close>

function spectrumLoop ::
  "string \<Rightarrow> RenderConfig \<Rightarrow> byte list \<Rightarrow> int \<Rightarrow> int \<Rightarrow> int
     \<Rightarrow> canvas_op list \<times> js_error option" where
  "spectrumLoop shade cfg data barCount step i =
     (if i < barCount
      then (case spectrumBar shade cfg data step i of
              Inl e \<Rightarrow> ([], Some e)
            | Inr ops \<Rightarrow>
                (case spectrumLoop shade cfg data barCount step (i + 1) of
                   (rest, thrown) \<Rightarrow> (ops @ rest, thrown)))
      else ([], None))"
  by pat_completeness auto
termination
  by (relation "measure (\<lambda>(shade, cfg, data, barCount, step, i). nat (barCount - i))") auto

declare spectrumLoop.simps [simp del]

text \<open>\<^verbatim>\<open>Math.floor(width / (barWidth + barGap))\<close> and \<^verbatim>\<open>Math.floor(data.length / barCount)\<close>.\<close>

definition barCountOf :: "RenderConfig \<Rightarrow> int" where
  "barCountOf cfg = \<lfloor>width cfg / (barWidth cfg + barGap cfg)\<rfloor>"

definition stepOf :: "RenderConfig \<Rightarrow> byte list \<Rightarrow> int" where
  "stepOf cfg data = \<lfloor>real (length data) / real_of_int (barCountOf cfg)\<rfloor>"

text \<open>
  \<^verbatim>\<open>drawSpectrum\<close> answers the calls made on the canvas and the error thrown, if any.
  When \<^verbatim>\<open>barWidth + barGap\<close> is 0 and the width positive, \<^verbatim>\<open>barCount\<close> is
  \<^verbatim>\<open>Infinity\<close> and the loop never ends: the routine does not return (\<open>None\<close>). With a
  width of 0 or below the quotient is \<^verbatim>\<open>NaN\<close> or \<^verbatim>\<open>-Infinity\<close> and the loop does
  not run, as for the 0 that HOL's division gives. \<^verbatim>\<open>step\<close> is read only inside the loop,
  that is when \<^verbatim>\<open>barCount\<close> is at least 1.
\<close>

definition drawSpectrumWith ::
  "string \<Rightarrow> RenderConfig \<Rightarrow> byte list \<Rightarrow> (canvas_op list \<times> js_error option) option" where
  "drawSpectrumWith shade cfg data =
     (if barWidth cfg + barGap cfg = 0 \<and> 0 < width cfg then None
      else
        let barCount = barCountOf cfg;
            step = stepOf cfg data
        in (case spectrumLoop shade cfg data barCount step 0 of
              (ops, thrown) \<Rightarrow> Some (clearBackground cfg @ ops, thrown)))"

definition drawSpectrum ::
  "RenderConfig \<Rightarrow> byte list \<Rightarrow> (canvas_op list \<times> js_error option) option" where
  "drawSpectrum = drawSpectrumWith ''#00cc66''"

subsection \<open>Reading a drawing back\<close>

text \<open>The points of the path, in order: one per \<^verbatim>\<open>moveTo\<close> or \<^verbatim>\<open>lineTo\<close>.\<close>

fun pathPoints :: "canvas_op list \<Rightarrow> (real \<times> real) list" where
  "pathPoints [] = []"
| "pathPoints (MoveTo x y # ops) = (x, y) # pathPoints ops"
| "pathPoints (LineTo x y # ops) = (x, y) # pathPoints ops"
| "pathPoints (_ # ops) = pathPoints ops"

text \<open>The rectangles filled, in order, as (x, y, w, h).\<close>

fun fillRects :: "canvas_op list \<Rightarrow> (jsnum \<times> jsnum \<times> jsnum \<times> jsnum) list" where
  "fillRects [] = []"
| "fillRects (FillRect x y w h # ops) = (x, y, w, h) # fillRects ops"
| "fillRects (_ # ops) = fillRects ops"

text \<open>The bars of a spectrum drawing: every rectangle after the background.\<close>

definition bars :: "canvas_op list \<Rightarrow> (jsnum \<times> jsnum \<times> jsnum \<times> jsnum) list" where
  "bars ops = tl (fillRects ops)"

definition barHeightOf :: "jsnum \<times> jsnum \<times> jsnum \<times> jsnum \<Rightarrow> jsnum" where
  "barHeightOf r = (case r of (x, y, w, h) \<Rightarrow> h)"

text \<open>
  The subpaths of the current path, as the canvas builds them: \<^verbatim>\<open>beginPath\<close> empties
  the path, \<^verbatim>\<open>moveTo\<close> opens a subpath, \<^verbatim>\<open>lineTo\<close> extends the last one (and
  opens one when the path is empty).
\<close>

fun pathStep :: "(real \<times> real) list list \<Rightarrow> canvas_op \<Rightarrow> (real \<times> real) list list" where
  "pathStep ps BeginPath = []"
| "pathStep ps (MoveTo x y) = ps @ [[(x, y)]]"
| "pathStep ps (LineTo x y) =
     (if ps = [] then [[(x, y)]] else butlast ps @ [last ps @ [(x, y)]])"
| "pathStep ps _ = ps"

definition subpaths :: "canvas_op list \<Rightarrow> (real \<times> real) list list" where
  "subpaths ops = foldl pathStep [] ops"

text \<open>The configuration of AudioVisualizer when no prop is passed.\<close>

definition defaultConfig :: RenderConfig where
  "defaultConfig = \<lparr>width = 800, height = 200, barWidth = 4, barGap = 2,
                     barColor = ''#00ff88'', backgroundColor = ''#1a1a1a''\<rparr>"

section \<open>Components: state, platform calls, lifecycle\<close>

text \<open>
  A component is modelled by its refs and its React state, a function of the component
  by the calls it makes on the browser (in order) and the state it leaves. What the
  browser answers (a stream or a rejection, a fresh node, a frame id) is an argument.
  An \<^verbatim>\<open>async\<close> function is run to its end in one step.
\<close>

type_synonym handle = nat

datatype audio_node = StreamSource handle | AnalyserNode handle | Destination handle

datatype modulation = FrequencyModulation | GainModulation

datatype platform_call =
    RequestAnimationFrame nat
  | CancelAnimationFrame nat
  | Paint "canvas_op list"
  | StopTracks handle
  | SetFftSize handle nat
  | SetSmoothingTimeConstant handle real
  | Connect audio_node audio_node
  | Disconnect audio_node
  | ResumeContext handle
  | CloseContext handle
  | RecorderStart handle nat
  | OscillatorStart handle
  | OscillatorStop handle
  | SetInterval modulation nat nat
  | ClearInterval nat
  | SpeechCancel
  | ConsoleLog string
  | ConsoleError string

datatype visualization = Waveform | Spectrum

text \<open>The refs every visualizer holds, and those of the components that own an audio graph.\<close>

record frame_refs =
  canvasRef :: "handle option"
  animationFrameRef :: "nat option"

record graph_refs = frame_refs +
  audioContextRef :: "handle option"
  analyserRef :: "handle option"
  sourceRef :: "handle option"
  error :: "string option"

record capture_refs = graph_refs +
  streamRef :: "handle option"

text \<open>LiveAudioVisualizer.\<close>

record live_state = capture_refs +
  isListening :: bool

text \<open>RecordingVisualizer; a chunk is the handle of its blob.\<close>

record recorder_state = capture_refs +
  mediaRecorderRef :: "handle option"
  isRecording :: bool
  recordingTime :: nat
  recordedChunks :: "handle list"
  recordingChunks :: "handle list"

text \<open>What the browser answers during \<^verbatim>\<open>startListening\<close> and \<^verbatim>\<open>startRecording\<close>.\<close>

record platform =
  getUserMedia :: "js_error + handle"
  newAudioContext :: "js_error + handle"
  createAnalyser :: handle
  createMediaStreamSource :: "js_error + handle"

record recorder_platform = platform +
  audioContextSuspended :: bool
  resumeContext :: "js_error option"
  newMediaRecorder :: "js_error + handle"

text \<open>What the browser answers during one run of the render callback.\<close>

record frame =
  context2d :: bool
  timeDomainData :: "byte list"
  frequencyData :: "byte list"
  frameId :: nat

text \<open>\<^verbatim>\<open>if (animationFrameRef.current) cancelAnimationFrame(animationFrameRef.current)\<close>:
  an id of 0 is falsy, as \<^verbatim>\<open>undefined\<close> is; the ref keeps its value.\<close>

definition cancelPendingFrame :: "nat option \<Rightarrow> platform_call list" where
  "cancelPendingFrame r =
     (case r of None \<Rightarrow> [] | Some n \<Rightarrow> if n \<noteq> 0 then [CancelAnimationFrame n] else [])"

subsection \<open>The render callback\<close>

text \<open>
  \<^verbatim>\<open>animate\<close> of LiveAudioVisualizer. \<open>listening\<close> is the \<^verbatim>\<open>isListening\<close> that the
  callback closed over. The result is \<open>None\<close> when the draw routine does not return;
  otherwise it holds the error thrown (by the draw routine, before the next frame is
  requested) if any, the calls made and the state left.
\<close>

definition animate ::
  "visualization \<Rightarrow> RenderConfig \<Rightarrow> bool \<Rightarrow> frame \<Rightarrow> live_state
     \<Rightarrow> (js_error option \<times> platform_call list \<times> live_state) option" where
  "animate visualizationType cfg listening fr s =
     (if analyserRef s = None \<or> canvasRef s = None \<or> \<not> listening then Some (None, [], s)
      else if \<not> context2d fr then Some (None, [], s)
      else
        case (if visualizationType = Waveform
              then Some (drawWaveform cfg (timeDomainData fr), None)
              else drawSpectrumWith ''#1d4ed8'' cfg (frequencyData fr)) of
          None \<Rightarrow> None
        | Some (ops, Some e) \<Rightarrow> Some (Some e, [Paint ops], s)
        | Some (ops, None) \<Rightarrow>
            Some (None, [Paint ops, RequestAnimationFrame (frameId fr)],
                  s\<lparr>animationFrameRef := Some (frameId fr)\<rparr>))"

text \<open>
  \<^verbatim>\<open>animate\<close> of AudioVisualizer: the analyser and \<^verbatim>\<open>isPlaying\<close> are props, the
  component's own state is its two refs.
\<close>

definition animateProps ::
  "handle option \<Rightarrow> bool \<Rightarrow> visualization \<Rightarrow> RenderConfig \<Rightarrow> frame \<Rightarrow> frame_refs
     \<Rightarrow> (js_error option \<times> platform_call list \<times> frame_refs) option" where
  "animateProps analyser isPlaying visualizationType cfg fr s =
     (if analyser = None \<or> canvasRef s = None \<or> \<not> isPlaying then Some (None, [], s)
      else if \<not> context2d fr then Some (None, [], s)
      else
        case (if visualizationType = Waveform
              then Some (drawWaveform cfg (timeDomainData fr), None)
              else drawSpectrum cfg (frequencyData fr)) of
          None \<Rightarrow> None
        | Some (ops, Some e) \<Rightarrow> Some (Some e, [Paint ops], s)
        | Some (ops, None) \<Rightarrow>
            Some (None, [Paint ops, RequestAnimationFrame (frameId fr)],
                  s\<lparr>animationFrameRef := Some (frameId fr)\<rparr>))"

text \<open>
  The body of the effect of LiveAudioVisualizer on \<^verbatim>\<open>[isListening, animate]\<close>, and
  of the effect of AudioVisualizer on \<^verbatim>\<open>[isPlaying, analyser, animate]\<close>. The
  \<^verbatim>\<open>animate\<close> they call is the one of the same render, which closed over the values
  the effect tests. The cleanup both effects return is \<open>cancelPendingFrame\<close>.
\<close>

definition renderEffect ::
  "visualization \<Rightarrow> RenderConfig \<Rightarrow> frame \<Rightarrow> live_state
     \<Rightarrow> (js_error option \<times> platform_call list \<times> live_state) option" where
  "renderEffect visualizationType cfg fr s =
     (if isListening s \<and> analyserRef s \<noteq> None
      then animate visualizationType cfg (isListening s) fr s
      else Some (None, cancelPendingFrame (animationFrameRef s), s))"


subsection \<open>startListening and stopListening\<close>

text \<open>
  The \<^verbatim>\<open>try\<close> block of \<^verbatim>\<open>startListening\<close>: the error thrown if any, the calls made
  and the state reached when it is left.
\<close>

definition startListening_try ::
  "platform \<Rightarrow> live_state \<Rightarrow> js_error option \<times> platform_call list \<times> live_state" where
  "startListening_try p s0 =
     (let s1 = s0\<lparr>error := None\<rparr> in
      case getUserMedia p of
        Inl e \<Rightarrow> (Some e, [], s1)
      | Inr stream \<Rightarrow>
          let s2 = s1\<lparr>streamRef := Some stream\<rparr> in
          (case newAudioContext p of
             Inl e \<Rightarrow> (Some e, [], s2)
           | Inr audioContext \<Rightarrow>
               let s3 = s2\<lparr>audioContextRef := Some audioContext\<rparr>;
                   analyser = createAnalyser p;
                   configure = [SetFftSize analyser 2048,
                                SetSmoothingTimeConstant analyser (8 / 10)];
                   s4 = s3\<lparr>analyserRef := Some analyser\<rparr>
               in (case createMediaStreamSource p of
                     Inl e \<Rightarrow> (Some e, configure, s4)
                   | Inr source \<Rightarrow>
                       let s5 = s4\<lparr>sourceRef := Some source\<rparr> in
                       (None,
                        configure
                        @ [Connect (StreamSource source) (AnalyserNode analyser),
                           Connect (AnalyserNode analyser) (Destination audioContext),
                           ConsoleLog ''Live audio visualization started''],
                        s5\<lparr>isListening := True\<rparr>))))"

definition microphoneMessage :: string where
  "microphoneMessage = ''Failed to access microphone. Please check permissions.''"

text \<open>\<^verbatim>\<open>startListening\<close>: the \<^verbatim>\<open>try\<close> block and its \<^verbatim>\<open>catch\<close>.\<close>

definition startListening :: "platform \<Rightarrow> live_state \<Rightarrow> platform_call list \<times> live_state" where
  "startListening p s =
     (case startListening_try p s of
        (None, calls, s') \<Rightarrow> (calls, s')
      | (Some e, calls, s') \<Rightarrow>
          (calls @ [ConsoleError ''Error starting live audio:''],
           s'\<lparr>error := Some microphoneMessage\<rparr>))"

text \<open>
  What \<^verbatim>\<open>stopListening\<close> does, step by step: the calls on the browser, the refs it
  sets to \<^verbatim>\<open>null\<close> and the state it sets, in the order of the statements.
\<close>

datatype ref_name = StreamRef | SourceRef | AudioContextRef | AnalyserRef

datatype effect = Called platform_call | Cleared ref_name | SetIsListening bool

fun callsOf :: "effect list \<Rightarrow> platform_call list" where
  "callsOf [] = []"
| "callsOf (Called c # es) = c # callsOf es"
| "callsOf (_ # es) = callsOf es"

text \<open>The five blocks of \<^verbatim>\<open>stopListening\<close>.\<close>

definition cancelFrame :: "live_state \<Rightarrow> effect list \<times> live_state" where
  "cancelFrame s = (map Called (cancelPendingFrame (animationFrameRef s)), s)"

definition releaseStream :: "live_state \<Rightarrow> effect list \<times> live_state" where
  "releaseStream s =
     (case streamRef s of
        None \<Rightarrow> ([], s)
      | Some stream \<Rightarrow>
          ([Called (StopTracks stream), Cleared StreamRef], s\<lparr>streamRef := None\<rparr>))"

definition disconnectSource :: "live_state \<Rightarrow> effect list \<times> live_state" where
  "disconnectSource s =
     (case sourceRef s of
        None \<Rightarrow> ([], s)
      | Some source \<Rightarrow>
          ([Called (Disconnect (StreamSource source)), Cleared SourceRef],
           s\<lparr>sourceRef := None\<rparr>))"

definition closeAudioContext :: "live_state \<Rightarrow> effect list \<times> live_state" where
  "closeAudioContext s =
     (case audioContextRef s of
        None \<Rightarrow> ([], s)
      | Some audioContext \<Rightarrow>
          ([Called (CloseContext audioContext), Cleared AudioContextRef],
           s\<lparr>audioContextRef := None\<rparr>))"

definition clearAnalyser :: "live_state \<Rightarrow> effect list \<times> live_state" where
  "clearAnalyser s =
     ([Cleared AnalyserRef, SetIsListening False,
       Called (ConsoleLog ''Live audio visualization stopped'')],
      s\<lparr>analyserRef := None, isListening := False\<rparr>)"

text \<open>Statements run one after the other: the effects add up, the state is handed on.\<close>

fun inSequence :: "('s \<Rightarrow> 'e list \<times> 's) list \<Rightarrow> 's \<Rightarrow> 'e list \<times> 's" where
  "inSequence [] s = ([], s)"
| "inSequence (f # fs) s =
     (case f s of (c1, s1) \<Rightarrow> (case inSequence fs s1 of (c2, s2) \<Rightarrow> (c1 @ c2, s2)))"

definition stopListening_trace :: "live_state \<Rightarrow> effect list \<times> live_state" where
  "stopListening_trace =
     inSequence [cancelFrame, releaseStream, disconnectSource, closeAudioContext, clearAnalyser]"

text \<open>\<^verbatim>\<open>stopListening\<close> as the rest of the component sees it: its calls and the state left.\<close>

definition stopListening :: "live_state \<Rightarrow> platform_call list \<times> live_state" where
  "stopListening s = (case stopListening_trace s of (effects, s') \<Rightarrow> (callsOf effects, s'))"

text \<open>
  The lifecycle states of the specification, read off the component: Active is
  \<^verbatim>\<open>isListening\<close>; Error is a message shown while not listening; Idle is not listening
  with every stream, source, context and analyser reference cleared.
\<close>

definition isActive :: "live_state \<Rightarrow> bool" where
  "isActive s = isListening s"

definition isErrorState :: "live_state \<Rightarrow> bool" where
  "isErrorState s = (\<not> isListening s \<and> error s \<noteq> None)"

definition isIdle :: "live_state \<Rightarrow> bool" where
  "isIdle s =
     (\<not> isListening s \<and> streamRef s = None \<and> sourceRef s = None
      \<and> audioContextRef s = None \<and> analyserRef s = None)"

text \<open>The frame callbacks the browser holds after a list of calls, from those it held.\<close>

fun pendingAfter :: "platform_call list \<Rightarrow> nat list \<Rightarrow> nat list" where
  "pendingAfter [] pending = pending"
| "pendingAfter (RequestAnimationFrame n # calls) pending = pendingAfter calls (n # pending)"
| "pendingAfter (CancelAnimationFrame n # calls) pending = pendingAfter calls (removeAll n pending)"
| "pendingAfter (_ # calls) pending = pendingAfter calls pending"

fun isRequestFrame :: "platform_call \<Rightarrow> bool" where
  "isRequestFrame (RequestAnimationFrame n) = True"
| "isRequestFrame _ = False"

fun isPaint :: "platform_call \<Rightarrow> bool" where
  "isPaint (Paint ops) = True"
| "isPaint _ = False"

fun isRelease :: "platform_call \<Rightarrow> bool" where
  "isRelease (StopTracks h) = True"
| "isRelease (Disconnect n) = True"
| "isRelease (CloseContext h) = True"
| "isRelease _ = False"

text \<open>A connection into the audible output of some context.\<close>

fun isConnectToDestination :: "platform_call \<Rightarrow> bool" where
  "isConnectToDestination (Connect a (Destination c)) = True"
| "isConnectToDestination _ = False"

definition connectsToDestination :: "platform_call list \<Rightarrow> bool" where
  "connectsToDestination calls = list_ex isConnectToDestination calls"

subsection \<open>startRecording of RecordingVisualizer\<close>

text \<open>
  The \<^verbatim>\<open>try\<close> block of \<^verbatim>\<open>startRecording\<close>. The choice of the mime type is part of
  what \<^verbatim>\<open>new MediaRecorder\<close> answers.
\<close>

definition startRecording_try ::
  "recorder_platform \<Rightarrow> recorder_state
     \<Rightarrow> js_error option \<times> platform_call list \<times> recorder_state" where
  "startRecording_try p s0 =
     (let s1 = s0\<lparr>error := None, recordedChunks := [], recordingTime := 0\<rparr> in
      case getUserMedia p of
        Inl e \<Rightarrow> (Some e, [], s1)
      | Inr stream \<Rightarrow>
          let s2 = s1\<lparr>streamRef := Some stream\<rparr> in
          (case newAudioContext p of
             Inl e \<Rightarrow> (Some e, [], s2)
           | Inr audioContext \<Rightarrow>
               let s3 = s2\<lparr>audioContextRef := Some audioContext\<rparr>;
                   resume = (if audioContextSuspended p then [ResumeContext audioContext] else [])
               in (case (if audioContextSuspended p then resumeContext p else None) of
                     Some e \<Rightarrow> (Some e, resume, s3)
                   | None \<Rightarrow>
                       let analyser = createAnalyser p;
                           configure = resume @ [SetFftSize analyser 2048,
                                                 SetSmoothingTimeConstant analyser (8 / 10)];
                           s4 = s3\<lparr>analyserRef := Some analyser\<rparr>
                       in (case createMediaStreamSource p of
                             Inl e \<Rightarrow> (Some e, configure, s4)
                           | Inr source \<Rightarrow>
                               let s5 = s4\<lparr>sourceRef := Some source\<rparr>;
                                   graph = configure
                                     @ [Connect (StreamSource source) (AnalyserNode analyser),
                                        ConsoleLog ''Audio setup complete:'']
                               in (case newMediaRecorder p of
                                     Inl e \<Rightarrow> (Some e, graph, s5)
                                   | Inr mediaRecorder \<Rightarrow>
                                       (None,
                                        graph
                                        @ [RecorderStart mediaRecorder 1000,
                                           ConsoleLog ''Recording with visualization started'',
                                           ConsoleLog ''MediaRecorder state:'',
                                           ConsoleLog ''AudioContext state:''],
                                        s5\<lparr>mediaRecorderRef := Some mediaRecorder,
                                           recordingChunks := [],
                                           isRecording := True\<rparr>))))))"

definition startRecording ::
  "recorder_platform \<Rightarrow> recorder_state \<Rightarrow> platform_call list \<times> recorder_state" where
  "startRecording p s =
     (case startRecording_try p s of
        (None, calls, s') \<Rightarrow> (calls, s')
      | (Some e, calls, s') \<Rightarrow>
          (calls @ [ConsoleError ''Error starting recording:''],
           s'\<lparr>error := Some microphoneMessage\<rparr>))"

subsection \<open>The render loop\<close>




















subsection \<open>The utterance handlers of TextAudioVisualizer\<close>

text \<open>
  One call of \<^verbatim>\<open>speakText\<close> creates one oscillator and two variables for the timers of
  the modulation, which the five handlers of the utterance close over. An
  \<^verbatim>\<open>OscillatorNode\<close> can be started once: the browser throws an
  \<^verbatim>\<open>InvalidStateError\<close> when \<^verbatim>\<open>start()\<close> is called on a node that was started
  before, and when \<^verbatim>\<open>stop()\<close> is called on a node that was never started; a second
  \<^verbatim>\<open>stop()\<close> is accepted. \<open>oscillatorStarted\<close> records whether \<^verbatim>\<open>start()\<close> has
  been called on the node. A handler answers the error it throws if any, the calls it
  made and the state it leaves; the statements before the one that throws have run.
\<close>

record utterance =
  oscillator :: handle
  oscillatorStarted :: bool
  frequencyModulation :: "nat option"
  gainModulation :: "nat option"

record speech_state = graph_refs +
  gainNodeRef :: "handle option"
  isPlaying :: bool
  isPaused :: bool
  currentTime :: real
  duration :: real

text \<open>\<^verbatim>\<open>oscillator.start()\<close> and \<^verbatim>\<open>oscillator.stop()\<close>.\<close>

definition oscillatorStart :: "utterance \<Rightarrow> js_error + platform_call list \<times> utterance" where
  "oscillatorStart u =
     (if oscillatorStarted u then Inl ''InvalidStateError''
      else Inr ([OscillatorStart (oscillator u)], u\<lparr>oscillatorStarted := True\<rparr>))"

definition oscillatorStop :: "utterance \<Rightarrow> js_error + platform_call list \<times> utterance" where
  "oscillatorStop u =
     (if oscillatorStarted u then Inr ([OscillatorStop (oscillator u)], u)
      else Inl ''InvalidStateError'')"

text \<open>\<^verbatim>\<open>startModulation\<close>; the pair holds the ids that the two \<^verbatim>\<open>setInterval\<close> return.\<close>

definition startModulation :: "nat \<times> nat \<Rightarrow> utterance \<Rightarrow> platform_call list \<times> utterance" where
  "startModulation ids u =
     (case ids of (f, g) \<Rightarrow>
        ([SetInterval FrequencyModulation 100 f, SetInterval GainModulation 50 g],
         u\<lparr>frequencyModulation := Some f, gainModulation := Some g\<rparr>))"

text \<open>\<^verbatim>\<open>if (t) clearInterval(t)\<close>, and \<^verbatim>\<open>stopModulation\<close>; the variables keep their ids.\<close>

definition clearIfSet :: "nat option \<Rightarrow> platform_call list" where
  "clearIfSet t = (case t of None \<Rightarrow> [] | Some n \<Rightarrow> if n \<noteq> 0 then [ClearInterval n] else [])"

definition stopModulation :: "utterance \<Rightarrow> platform_call list" where
  "stopModulation u = clearIfSet (frequencyModulation u) @ clearIfSet (gainModulation u)"

definition onstart ::
  "nat \<times> nat \<Rightarrow> utterance \<times> speech_state
     \<Rightarrow> js_error option \<times> platform_call list \<times> utterance \<times> speech_state" where
  "onstart ids us =
     (case us of (u, s) \<Rightarrow>
        let s1 = s\<lparr>isPlaying := True, isPaused := False\<rparr> in
        (case oscillatorStart u of
           Inl e \<Rightarrow> (Some e, [], u, s1)
         | Inr (started, u1) \<Rightarrow>
             (case startModulation ids u1 of (timers, u2) \<Rightarrow>
                (None,
                 started @ timers @ [ConsoleLog ''Speech started with visualization''],
                 u2, s1))))"

definition onend ::
  "utterance \<times> speech_state
     \<Rightarrow> js_error option \<times> platform_call list \<times> utterance \<times> speech_state" where
  "onend us =
     (case us of (u, s) \<Rightarrow>
        let s1 = s\<lparr>isPlaying := False, isPaused := False, currentTime := 0\<rparr> in
        (case oscillatorStop u of
           Inl e \<Rightarrow> (Some e, [], u, s1)
         | Inr (stopped, u1) \<Rightarrow>
             (None, stopped @ stopModulation u1 @ [ConsoleLog ''Speech ended''], u1, s1)))"

definition onpause ::
  "utterance \<times> speech_state
     \<Rightarrow> js_error option \<times> platform_call list \<times> utterance \<times> speech_state" where
  "onpause us =
     (case us of (u, s) \<Rightarrow>
        let s1 = s\<lparr>isPaused := True\<rparr> in
        (case oscillatorStop u of
           Inl e \<Rightarrow> (Some e, [], u, s1)
         | Inr (stopped, u1) \<Rightarrow>
             (None, stopped @ stopModulation u1 @ [ConsoleLog ''Speech paused''], u1, s1)))"

definition onresume ::
  "nat \<times> nat \<Rightarrow> utterance \<times> speech_state
     \<Rightarrow> js_error option \<times> platform_call list \<times> utterance \<times> speech_state" where
  "onresume ids us =
     (case us of (u, s) \<Rightarrow>
        let s1 = s\<lparr>isPaused := False\<rparr> in
        (case oscillatorStart u of
           Inl e \<Rightarrow> (Some e, [], u, s1)
         | Inr (started, u1) \<Rightarrow>
             (case startModulation ids u1 of (timers, u2) \<Rightarrow>
                (None, started @ timers @ [ConsoleLog ''Speech resumed''], u2, s1))))"

definition onerror ::
  "string \<Rightarrow> utterance \<times> speech_state
     \<Rightarrow> js_error option \<times> platform_call list \<times> utterance \<times> speech_state" where
  "onerror ev us =
     (case us of (u, s) \<Rightarrow>
        let s1 = s\<lparr>error := Some (''Speech synthesis error: '' @ ev),
                   isPlaying := False, isPaused := False\<rparr> in
        (case oscillatorStop u of
           Inl e \<Rightarrow> (Some e, [], u, s1)
         | Inr (stopped, u1) \<Rightarrow> (None, stopped @ stopModulation u1, u1, s1)))"

text \<open>The events of a \<^verbatim>\<open>SpeechSynthesisUtterance\<close>, and the handler each one runs.\<close>

datatype utterance_event = Started | Ended | Paused | Resumed | Failed string

definition fire ::
  "utterance_event \<Rightarrow> nat \<times> nat \<Rightarrow> utterance \<times> speech_state
     \<Rightarrow> js_error option \<times> platform_call list \<times> utterance \<times> speech_state" where
  "fire ev ids us =
     (case ev of
        Started \<Rightarrow> onstart ids us
      | Ended \<Rightarrow> onend us
      | Paused \<Rightarrow> onpause us
      | Resumed \<Rightarrow> onresume ids us
      | Failed e \<Rightarrow> onerror e us)"

text \<open>
  \<^verbatim>\<open>stopSpeech\<close>. The first flag tells whether \<^verbatim>\<open>window.speechSynthesis\<close> exists, the
  second whether the oscillator in \<^verbatim>\<open>sourceRef\<close> was started.
\<close>

definition stopSpeech ::
  "bool \<Rightarrow> bool \<Rightarrow> speech_state \<Rightarrow> js_error option \<times> platform_call list \<times> speech_state" where
  "stopSpeech speechSynthesis started s =
     (let cancel = (if speechSynthesis then [SpeechCancel] else []);
          stopped = s\<lparr>isPlaying := False, isPaused := False, currentTime := 0\<rparr>
      in case sourceRef s of
           None \<Rightarrow> (None, cancel, stopped)
         | Some source \<Rightarrow>
             if started
             then (None, cancel @ [OscillatorStop source], stopped\<lparr>sourceRef := None\<rparr>)
             else (Some ''InvalidStateError'', cancel, s))"

text \<open>
  Whether the oscillator has been told to run, and the modulation timers that are set,
  after a list of calls.
\<close>

fun oscillatorRunning :: "platform_call list \<Rightarrow> bool \<Rightarrow> bool" where
  "oscillatorRunning [] running = running"
| "oscillatorRunning (OscillatorStart h # calls) running = oscillatorRunning calls True"
| "oscillatorRunning (OscillatorStop h # calls) running = oscillatorRunning calls False"
| "oscillatorRunning (_ # calls) running = oscillatorRunning calls running"

fun timersAfter :: "platform_call list \<Rightarrow> nat list \<Rightarrow> nat list" where
  "timersAfter [] timers = timers"
| "timersAfter (SetInterval m ms n # calls) timers = timersAfter calls (timers @ [n])"
| "timersAfter (ClearInterval n # calls) timers = timersAfter calls (removeAll n timers)"
| "timersAfter (_ # calls) timers = timersAfter calls timers"

text \<open>The states and answers used as concrete inputs below.\<close>

definition unmounted :: live_state where
  "unmounted =
     \<lparr>canvasRef = None, animationFrameRef = None, audioContextRef = None,
      analyserRef = None, sourceRef = None, error = None, streamRef = None,
      isListening = False\<rparr>"

definition mounted :: live_state where
  "mounted = unmounted\<lparr>canvasRef := Some 1\<rparr>"

definition granted :: platform where
  "granted =
     \<lparr>getUserMedia = Inr 10, newAudioContext = Inr 20, createAnalyser = 30,
      createMediaStreamSource = Inr 40\<rparr>"

definition denied :: platform where
  "denied = granted\<lparr>getUserMedia := Inl ''NotAllowedError''\<rparr>"

definition silentFrame :: frame where
  "silentFrame =
     \<lparr>context2d = True, timeDomainData = replicate 32 128,
      frequencyData = replicate 32 0, frameId = 7\<rparr>"


definition listeningComponent :: live_state where
  "listeningComponent =
     mounted\<lparr>audioContextRef := Some 20, analyserRef := Some 30, sourceRef := Some 40,
             streamRef := Some 10, isListening := True\<rparr>"

definition speaking :: speech_state where
  "speaking =
     \<lparr>canvasRef = Some 1, animationFrameRef = None, audioContextRef = Some 20,
      analyserRef = Some 30, sourceRef = Some 50, error = None, gainNodeRef = Some 60,
      isPlaying = False, isPaused = False, currentTime = 0, duration = 12\<rparr>"

definition fresh :: utterance where
  "fresh =
     \<lparr>oscillator = 50, oscillatorStarted = False,
      frequencyModulation = None, gainModulation = None\<rparr>"

text \<open>The utterance after its start event (timers 3 and 4) and the pause that follows.\<close>

definition startedThenPaused :: "utterance \<times> speech_state" where
  "startedThenPaused =
     snd (snd (fire Paused (0, 0) (snd (snd (fire Started (3, 4) (fresh, speaking))))))"


section \<open>Properties of the draw routines\<close>

lemma pathPoints_append: "pathPoints (xs @ ys) = pathPoints xs @ pathPoints ys"
  by (induction xs rule: pathPoints.induct) simp_all

lemma fillRects_append: "fillRects (xs @ ys) = fillRects xs @ fillRects ys"
  by (induction xs rule: fillRects.induct) simp_all

lemma pathPoints_waveformLoop:
  "pathPoints (waveformLoop cfg sw i x data) =
     map (\<lambda>k. (x + real k * sw, (real (unat (data ! k)) / 128 * height cfg) / 2)) [0..<length data]"
proof (induction data arbitrary: i x)
  case Nil
  then show ?case by simp
next
  case (Cons s rest)
  have a: "[0..<length (s # rest)] = 0 # map Suc [0..<length rest]"
    by (simp add: upt_conv_Cons map_Suc_upt del: upt_Suc)
  show ?case unfolding a
    by (simp add: Let_def Cons.IH comp_def algebra_simps)
qed

lemma pathPoints_clearBackground: "pathPoints (clearBackground cfg) = []"
  by (simp add: clearBackground_def)

lemma pathPoints_drawWaveform:
  "pathPoints (drawWaveform cfg data) =
     map (\<lambda>k. (real k * (width cfg / real (length data)),
                (real (unat (data ! k)) / 128 * height cfg) / 2)) [0..<length data]
     @ [(width cfg, height cfg / 2)]"
  by (simp add: drawWaveform_def pathPoints_append pathPoints_clearBackground
        pathPoints_waveformLoop Let_def)

lemma spectrumBar_in_range:
  assumes "0 \<le> i * step" "i * step < int (length data)"
  shows "spectrumBar shade cfg data step i =
     Inr [FillStyle (LinearGradient
            (Fin (real_of_int i * (barWidth cfg + barGap cfg)))
            (Fin (height cfg - (real (unat (data ! nat (i * step))) / 255) * height cfg))
            (Fin (real_of_int i * (barWidth cfg + barGap cfg)))
            (Fin (height cfg))
            [(0, barColor cfg), (1, shade)]),
          FillRect
            (Fin (real_of_int i * (barWidth cfg + barGap cfg)))
            (Fin (height cfg - (real (unat (data ! nat (i * step))) / 255) * height cfg))
            (Fin (barWidth cfg))
            (Fin ((real (unat (data ! nat (i * step))) / 255) * height cfg))]"
  using assms
  by (simp add: spectrumBar_def typedArrayGet_def scaleValue_def minusFrom_def
        createLinearGradient_def Let_def)

lemma spectrumBar_out_of_range:
  assumes "\<not> (0 \<le> i * step \<and> i * step < int (length data))"
  shows "spectrumBar shade cfg data step i = Inl ''TypeError''"
  using assms
  by (simp add: spectrumBar_def typedArrayGet_def scaleValue_def minusFrom_def
        createLinearGradient_def Let_def)

lemma spectrumLoop_in_range:
  assumes "\<forall>j. i \<le> j \<and> j < bc \<longrightarrow> 0 \<le> j * step \<and> j * step < int (length data)"
  shows "\<exists>ops. spectrumLoop shade cfg data bc step i = (ops, None)
           \<and> fillRects ops =
               map (\<lambda>j. (Fin (real_of_int j * (barWidth cfg + barGap cfg)),
                          Fin (height cfg
                                - (real (unat (data ! nat (j * step))) / 255) * height cfg),
                          Fin (barWidth cfg),
                          Fin ((real (unat (data ! nat (j * step))) / 255) * height cfg)))
                   [i..bc - 1]"
  using assms
proof (induction shade cfg data bc step i rule: spectrumLoop.induct)
  case (1 shade cfg data bc step i)
  show ?case
  proof (cases "i < bc")
    case False
    then show ?thesis by (simp add: spectrumLoop.simps [of _ _ _ _ _ i])
  next
    case True
    with "1.prems" have here: "0 \<le> i * step" "i * step < int (length data)" by simp_all
    note bar = spectrumBar_in_range [OF here, of shade cfg]
    from "1.prems" have "\<forall>j. i + 1 \<le> j \<and> j < bc \<longrightarrow> 0 \<le> j * step \<and> j * step < int (length data)"
      by simp
    from "1.IH" [OF True bar this]
    obtain rest where rest: "spectrumLoop shade cfg data bc step (i + 1) = (rest, None)"
      and rects: "fillRects rest =
               map (\<lambda>j. (Fin (real_of_int j * (barWidth cfg + barGap cfg)),
                          Fin (height cfg
                                - (real (unat (data ! nat (j * step))) / 255) * height cfg),
                          Fin (barWidth cfg),
                          Fin ((real (unat (data ! nat (j * step))) / 255) * height cfg)))
                   [i + 1..bc - 1]"
      by blast
    have upto: "[i..bc - 1] = i # [i + 1..bc - 1]" using True by (simp add: upto_rec1)
    show ?thesis
      using True rest rects
      by (simp add: spectrumLoop.simps [of _ _ _ _ _ i] bar upto fillRects_append)
  qed
qed

lemma stepOf_div: "stepOf cfg data = int (length data) div barCountOf cfg"
proof -
  have "real (length data) = real_of_int (int (length data))" by simp
  then show ?thesis unfolding stepOf_def
    by (metis floor_divide_of_int_eq)
qed

lemma decimated_index_in_range:
  fixes n bc i :: int
  assumes "1 \<le> n" "0 \<le> i" "i < bc"
  shows "0 \<le> i * (n div bc) \<and> i * (n div bc) < n"
proof -
  from assms have bc: "0 < bc" by simp
  with assms have q: "0 \<le> n div bc" by (simp add: pos_imp_zdiv_nonneg_iff)
  have "i * (n div bc) \<le> (bc - 1) * (n div bc)"
    using assms q by (intro mult_right_mono) simp_all
  also have "\<dots> = bc * (n div bc) - n div bc" by (simp add: algebra_simps)
  also have "\<dots> \<le> n - n div bc"
  proof -
    have "bc * (n div bc) + n mod bc = n" by simp
    moreover have "0 \<le> n mod bc" using bc by simp
    ultimately show ?thesis by linarith
  qed
  finally have le: "i * (n div bc) \<le> n - n div bc" .
  show ?thesis
  proof (cases "n div bc = 0")
    case True
    with assms show ?thesis by simp
  next
    case False
    with q have "0 < n div bc" by simp
    with le assms q show ?thesis by simp
  qed
qed

lemma barCountOf_ge1:
  assumes "0 < barWidth cfg + barGap cfg" "barWidth cfg + barGap cfg \<le> width cfg"
  shows "1 \<le> barCountOf cfg"
proof -
  from assms have "1 \<le> width cfg / (barWidth cfg + barGap cfg)" by (simp add: le_divide_eq)
  then have "\<lfloor>1::real\<rfloor> \<le> \<lfloor>width cfg / (barWidth cfg + barGap cfg)\<rfloor>" by (rule floor_mono)
  then show ?thesis by (simp add: barCountOf_def)
qed

lemma reads_in_range:
  assumes "data \<noteq> []"
  shows "\<forall>j. 0 \<le> j \<and> j < barCountOf cfg \<longrightarrow>
           0 \<le> j * stepOf cfg data \<and> j * stepOf cfg data < int (length data)"
proof (intro allI impI)
  fix j assume j: "0 \<le> j \<and> j < barCountOf cfg"
  have n: "1 \<le> int (length data)" using assms by (simp add: Suc_le_eq)
  from j show "0 \<le> j * stepOf cfg data \<and> j * stepOf cfg data < int (length data)"
    using decimated_index_in_range [OF n, of j "barCountOf cfg"] by (simp add: stepOf_div)
qed

text \<open>
  On a snapshot that is not empty the spectrum draw returns without an error, and its
  bars are those of the indices \<open>0 \<le> i < barCount\<close>.
\<close>

lemma drawSpectrumWith_bars:
  assumes "data \<noteq> []" "barWidth cfg + barGap cfg \<noteq> 0"
  shows "\<exists>ops. drawSpectrumWith shade cfg data = Some (ops, None)
           \<and> bars ops =
               map (\<lambda>j. (Fin (real_of_int j * (barWidth cfg + barGap cfg)),
                          Fin (height cfg
                                - (real (unat (data ! nat (j * stepOf cfg data))) / 255)
                                    * height cfg),
                          Fin (barWidth cfg),
                          Fin ((real (unat (data ! nat (j * stepOf cfg data))) / 255)
                                 * height cfg)))
                   [0..barCountOf cfg - 1]"
proof -
  from reads_in_range [OF assms(1), of cfg]
  obtain loopOps where loop:
      "spectrumLoop shade cfg data (barCountOf cfg) (stepOf cfg data) 0 = (loopOps, None)"
    and rects: "fillRects loopOps =
               map (\<lambda>j. (Fin (real_of_int j * (barWidth cfg + barGap cfg)),
                          Fin (height cfg
                                - (real (unat (data ! nat (j * stepOf cfg data))) / 255)
                                    * height cfg),
                          Fin (barWidth cfg),
                          Fin ((real (unat (data ! nat (j * stepOf cfg data))) / 255)
                                 * height cfg)))
                   [0..barCountOf cfg - 1]"
    using spectrumLoop_in_range [of 0 "barCountOf cfg" "stepOf cfg data" data shade cfg]
    by blast
  have "drawSpectrumWith shade cfg data = Some (clearBackground cfg @ loopOps, None)"
    using assms(2) loop by (simp add: drawSpectrumWith_def Let_def)
  moreover have "bars (clearBackground cfg @ loopOps) =
               map (\<lambda>j. (Fin (real_of_int j * (barWidth cfg + barGap cfg)),
                          Fin (height cfg
                                - (real (unat (data ! nat (j * stepOf cfg data))) / 255)
                                    * height cfg),
                          Fin (barWidth cfg),
                          Fin ((real (unat (data ! nat (j * stepOf cfg data))) / 255)
                                 * height cfg)))
                   [0..barCountOf cfg - 1]"
    by (simp add: bars_def fillRects_append clearBackground_def rects)
  ultimately show ?thesis by blast
qed

text \<open>
  On the empty snapshot, as soon as there is one bar to draw, the first
  \<^verbatim>\<open>createLinearGradient\<close> throws: \<^verbatim>\<open>data[0]\<close> is \<^verbatim>\<open>undefined\<close>. No caller passes
  such a snapshot.
\<close>

lemma drawSpectrumWith_empty_throws:
  assumes "1 \<le> barCountOf cfg" "barWidth cfg + barGap cfg \<noteq> 0"
  shows "drawSpectrumWith shade cfg [] = Some (clearBackground cfg, Some ''TypeError'')"
  using assms
  by (simp add: drawSpectrumWith_def Let_def spectrumLoop.simps [of _ _ _ _ _ 0]
        spectrumBar_out_of_range)

lemma foldl_pathStep_waveformLoop:
  "i \<noteq> 0 \<Longrightarrow>
   foldl pathStep (qs @ [q]) (waveformLoop cfg sw i x data) =
     qs @ [q @ pathPoints (waveformLoop cfg sw i x data)]"
proof (induction data arbitrary: i x q)
  case Nil
  then show ?case by simp
next
  case (Cons s rest)
  from Cons.prems show ?case
    using Cons.IH [of "Suc i"] by (simp add: Let_def)
qed

lemma subpaths_waveformLoop:
  "data \<noteq> [] \<Longrightarrow>
   foldl pathStep [] (waveformLoop cfg sw 0 x data) = [pathPoints (waveformLoop cfg sw 0 x data)]"
proof (cases data)
  case Nil
  assume "data \<noteq> []"
  with Nil show ?thesis by simp
next
  case (Cons s rest)
  show ?thesis unfolding Cons
    using foldl_pathStep_waveformLoop [of "Suc 0" "[]"] by (simp add: Let_def)
qed

lemma subpaths_drawWaveform:
  assumes "data \<noteq> []"
  shows "subpaths (drawWaveform cfg data) = [pathPoints (drawWaveform cfg data)]"
  using assms
  by (simp add: subpaths_def drawWaveform_def clearBackground_def Let_def
        subpaths_waveformLoop pathPoints_append)

subsection \<open>C2: points of the waveform polyline\<close>

text \<open>
  C2, as amended. For a snapshot of \<open>L \<ge> 1\<close> samples (in particular every supported
  length, a power of two from 32 on) and every width, the waveform draw strokes one
  connected polyline of \<open>L + 1\<close> points: the \<open>L\<close> sample points, point \<open>k\<close> at
  \<open>x = k * width / L\<close> (so the first at 0 and the last sample at \<open>(L - 1) * width / L\<close>),
  followed by the closing point \<open>(width, height / 2)\<close> of the final \<^verbatim>\<open>lineTo\<close>. The
  first point's abscissa is 0 and the last point's is the width.
\<close>

theorem waveform_polyline_has_closing_point:
  "data \<noteq> [] \<Longrightarrow>
     subpaths (drawWaveform cfg data) = [pathPoints (drawWaveform cfg data)]
   \<and> pathPoints (drawWaveform cfg data) =
       map (\<lambda>k. (real k * (width cfg / real (length data)),
                  (real (unat (data ! k)) / 128 * height cfg) / 2)) [0..<length data]
       @ [(width cfg, height cfg / 2)]
   \<and> length (pathPoints (drawWaveform cfg data)) = length data + 1
   \<and> fst (hd (pathPoints (drawWaveform cfg data))) = 0
   \<and> fst (pathPoints (drawWaveform cfg data) ! (length data - 1))
       = real (length data - 1) * (width cfg / real (length data))
   \<and> fst (last (pathPoints (drawWaveform cfg data))) = width cfg"
proof -
  assume ne: "data \<noteq> []"
  let ?pts = "pathPoints (drawWaveform cfg data)"
  have pos: "0 < length data" using ne by simp
  have a: "subpaths (drawWaveform cfg data) = [?pts]" using ne by (rule subpaths_drawWaveform)
  have b: "?pts = map (\<lambda>k. (real k * (width cfg / real (length data)),
                  (real (unat (data ! k)) / 128 * height cfg) / 2)) [0..<length data]
       @ [(width cfg, height cfg / 2)]" by (rule pathPoints_drawWaveform)
  have c: "length ?pts = length data + 1" by (simp add: b)
  have "hd ?pts = ?pts ! 0" using pos by (simp add: b hd_conv_nth)
  then have d: "fst (hd ?pts) = 0" using pos by (simp add: b nth_append)
  have e: "fst (?pts ! (length data - 1))
      = real (length data - 1) * (width cfg / real (length data))"
    using pos by (simp add: b nth_append)
  have f: "fst (last ?pts) = width cfg" by (simp add: b)
  from a b c d e f show ?thesis by blast
qed

text \<open>The theorem at a silent snapshot of 32 samples on the default canvas.\<close>

theorem waveform_polyline_witness:
  "replicate 32 (128 :: byte) \<noteq> []
   \<and> subpaths (drawWaveform defaultConfig (replicate 32 128))
       = [pathPoints (drawWaveform defaultConfig (replicate 32 128))]
   \<and> length (pathPoints (drawWaveform defaultConfig (replicate 32 128))) = 33
   \<and> fst (hd (pathPoints (drawWaveform defaultConfig (replicate 32 128)))) = 0
   \<and> fst (pathPoints (drawWaveform defaultConfig (replicate 32 128)) ! 31) = 775
   \<and> fst (last (pathPoints (drawWaveform defaultConfig (replicate 32 128)))) = 800"
proof -
  let ?pts = "pathPoints (drawWaveform defaultConfig (replicate 32 128))"
  have ne: "replicate 32 (128 :: byte) \<noteq> []" by simp
  note t = waveform_polyline_has_closing_point [OF ne, of defaultConfig]
  from t have a: "subpaths (drawWaveform defaultConfig (replicate 32 128)) = [?pts]" by blast
  from t have "length ?pts = length (replicate 32 (128 :: byte)) + 1" by blast
  then have b: "length ?pts = 33" by simp
  from t have c: "fst (hd ?pts) = 0" by blast
  from t have "fst (?pts ! (length (replicate 32 (128 :: byte)) - 1))
      = real (length (replicate 32 (128 :: byte)) - 1)
          * (width defaultConfig / real (length (replicate 32 (128 :: byte))))" by blast
  then have d: "fst (?pts ! 31) = 775" by (simp add: defaultConfig_def)
  from t have "fst (last ?pts) = width defaultConfig" by blast
  then have e: "fst (last ?pts) = 800" by (simp add: defaultConfig_def)
  from ne a b c d e show ?thesis by blast
qed

text \<open>
  C2 as first stated fails at \<open>L = 32\<close> on the default canvas: the polyline has 33
  points, not 32, and the 32nd point (the last sample) lies at 775, not at the width 800.
\<close>

theorem waveform_point_count_counterexample:
  "length (replicate 32 (128 :: byte)) = 32
   \<and> length (pathPoints (drawWaveform defaultConfig (replicate 32 128))) = 33
   \<and> length (pathPoints (drawWaveform defaultConfig (replicate 32 128))) \<noteq> 32
   \<and> fst (pathPoints (drawWaveform defaultConfig (replicate 32 128)) ! 31) = 775
   \<and> width defaultConfig = 800"
  by (simp add: pathPoints_drawWaveform nth_append defaultConfig_def)

subsection \<open>C8: silence draws a flat line\<close>

text \<open>
  C8. When every sample of the snapshot is 128, every point of the waveform polyline
  (the closing point included) has \<open>y = height / 2\<close>, for every width and height; and in
  general sample \<open>s\<close> is drawn at \<open>y = height / 2 + (s / 128 - 1) * height / 2\<close>.
\<close>

theorem silence_draws_flat_line:
  "((\<forall>s \<in> set data. s = 128) \<longrightarrow>
      (\<forall>p \<in> set (pathPoints (drawWaveform cfg data)). snd p = height cfg / 2))
   \<and> (\<forall>k < length data. snd (pathPoints (drawWaveform cfg data) ! k)
         = height cfg / 2 + (real (unat (data ! k)) / 128 - 1) * (height cfg / 2))"
proof -
  have "\<forall>p \<in> set (pathPoints (drawWaveform cfg data)). snd p = height cfg / 2"
    if all: "\<forall>s \<in> set data. s = 128"
  proof -
    have "\<And>k. k < length data \<Longrightarrow> data ! k = 128" using all by simp
    then show ?thesis by (auto simp: pathPoints_drawWaveform)
  qed
  moreover have "\<forall>k < length data. snd (pathPoints (drawWaveform cfg data) ! k)
         = height cfg / 2 + (real (unat (data ! k)) / 128 - 1) * (height cfg / 2)"
    by (simp add: pathPoints_drawWaveform nth_append algebra_simps)
  ultimately show ?thesis by blast
qed

text \<open>The theorem at a silent snapshot of 32 samples on the default canvas.\<close>

theorem silence_draws_flat_line_witness:
  "list_all (\<lambda>s. s = 128) (replicate 32 (128 :: byte))
   \<and> list_all (\<lambda>p. snd p = 100) (pathPoints (drawWaveform defaultConfig (replicate 32 128)))
   \<and> length (pathPoints (drawWaveform defaultConfig (replicate 32 128))) = 33"
proof -
  have a: "\<forall>s \<in> set (replicate 32 (128 :: byte)). s = 128" by simp
  with silence_draws_flat_line [of "replicate 32 128" defaultConfig]
  have "\<forall>p \<in> set (pathPoints (drawWaveform defaultConfig (replicate 32 128))).
          snd p = height defaultConfig / 2" by blast
  then have "list_all (\<lambda>p. snd p = 100) (pathPoints (drawWaveform defaultConfig (replicate 32 128)))"
    by (simp add: list_all_iff defaultConfig_def)
  moreover have "length (pathPoints (drawWaveform defaultConfig (replicate 32 128))) = 33"
    by (simp add: pathPoints_drawWaveform)
  ultimately show ?thesis using a by (simp add: list_all_iff)
qed

subsection \<open>C3: bars of the spectrum\<close>

lemma drawSpectrum_bars:
  assumes "data \<noteq> []" "barWidth cfg + barGap cfg \<noteq> 0"
  shows "\<exists>ops. drawSpectrum cfg data = Some (ops, None)
           \<and> length (bars ops) = nat (barCountOf cfg)
           \<and> (\<forall>i < nat (barCountOf cfg). bars ops ! i =
                 (Fin (real i * (barWidth cfg + barGap cfg)),
                  Fin (height cfg
                        - (real (unat (data ! nat (int i * stepOf cfg data))) / 255) * height cfg),
                  Fin (barWidth cfg),
                  Fin ((real (unat (data ! nat (int i * stepOf cfg data))) / 255) * height cfg)))"
proof -
  from drawSpectrumWith_bars [OF assms, of "''#00cc66''"]
  obtain ops where ops: "drawSpectrum cfg data = Some (ops, None)"
    and b: "bars ops =
               map (\<lambda>j. (Fin (real_of_int j * (barWidth cfg + barGap cfg)),
                          Fin (height cfg
                                - (real (unat (data ! nat (j * stepOf cfg data))) / 255)
                                    * height cfg),
                          Fin (barWidth cfg),
                          Fin ((real (unat (data ! nat (j * stepOf cfg data))) / 255)
                                 * height cfg)))
                   [0..barCountOf cfg - 1]"
    by (auto simp: drawSpectrum_def)
  have len: "length (bars ops) = nat (barCountOf cfg)" by (simp add: b)
  have nth: "\<forall>i < nat (barCountOf cfg). bars ops ! i =
                 (Fin (real i * (barWidth cfg + barGap cfg)),
                  Fin (height cfg
                        - (real (unat (data ! nat (int i * stepOf cfg data))) / 255) * height cfg),
                  Fin (barWidth cfg),
                  Fin ((real (unat (data ! nat (int i * stepOf cfg data))) / 255) * height cfg))"
    by (simp add: b)
  from ops len nth show ?thesis by blast
qed

lemma read_in_range:
  assumes "data \<noteq> []" "i < nat (barCountOf cfg)"
  shows "typedArrayGet data (int i * stepOf cfg data) = Some (data ! nat (int i * stepOf cfg data))"
    and "nat (int i * stepOf cfg data) < length data"
proof -
  from assms(2) have "0 \<le> int i \<and> int i < barCountOf cfg" by simp
  with reads_in_range [OF assms(1), of cfg]
  have r: "0 \<le> int i * stepOf cfg data \<and> int i * stepOf cfg data < int (length data)"
    by blast
  then show "typedArrayGet data (int i * stepOf cfg data) = Some (data ! nat (int i * stepOf cfg data))"
    by (simp add: typedArrayGet_def)
  from r show "nat (int i * stepOf cfg data) < length data" by linarith
qed

text \<open>
  C3. A frequency snapshot is the array of \<^verbatim>\<open>analyser.frequencyBinCount\<close> bytes that the
  render callback fills; with the \<^verbatim>\<open>fftSize\<close> of 2048 that every component sets it has
  1024 bytes, and it is never empty. For every such snapshot and every configuration
  with \<open>barWidth + barGap > 0\<close> the spectrum draw returns without an error and renders
  \<open>barCount = \<lfloor>width / (barWidth + barGap)\<rfloor>\<close> bars (none when that is 0 or negative); bar
  \<open>i\<close> reads the sample at index \<open>i * \<lfloor>binCount / barCount\<rfloor>\<close>, has the height
  \<open>(value / 255) * height\<close> and is drawn from \<open>y = height - barHeight\<close> at
  \<open>x = i * (barWidth + barGap)\<close> with the width \<open>barWidth\<close>. When every value of the
  snapshot is 255, every bar has the full canvas height.
\<close>

theorem spectrum_bars_decimate_and_scale:
  "0 < barWidth cfg + barGap cfg \<Longrightarrow> data \<noteq> [] \<Longrightarrow>
   (\<exists>ops. drawSpectrum cfg data = Some (ops, None)
      \<and> barCountOf cfg = \<lfloor>width cfg / (barWidth cfg + barGap cfg)\<rfloor>
      \<and> stepOf cfg data = int (length data) div barCountOf cfg
      \<and> length (bars ops) = nat (barCountOf cfg)
      \<and> (\<forall>i < nat (barCountOf cfg).
            typedArrayGet data (int i * stepOf cfg data)
              = Some (data ! nat (int i * stepOf cfg data))
          \<and> bars ops ! i =
              (Fin (real i * (barWidth cfg + barGap cfg)),
               Fin (height cfg
                     - (real (unat (data ! nat (int i * stepOf cfg data))) / 255) * height cfg),
               Fin (barWidth cfg),
               Fin ((real (unat (data ! nat (int i * stepOf cfg data))) / 255) * height cfg)))
      \<and> ((\<forall>v \<in> set data. v = 255) \<longrightarrow>
            (\<forall>b \<in> set (bars ops). barHeightOf b = Fin (height cfg))))"
proof -
  assume pos: "0 < barWidth cfg + barGap cfg" and ne: "data \<noteq> []"
  from pos have nz: "barWidth cfg + barGap cfg \<noteq> 0" by simp
  from drawSpectrum_bars [OF ne nz]
  obtain ops where ops: "drawSpectrum cfg data = Some (ops, None)"
    and len: "length (bars ops) = nat (barCountOf cfg)"
    and nth: "\<forall>i < nat (barCountOf cfg). bars ops ! i =
                 (Fin (real i * (barWidth cfg + barGap cfg)),
                  Fin (height cfg
                        - (real (unat (data ! nat (int i * stepOf cfg data))) / 255) * height cfg),
                  Fin (barWidth cfg),
                  Fin ((real (unat (data ! nat (int i * stepOf cfg data))) / 255) * height cfg))"
    by blast
  have reads: "\<forall>i < nat (barCountOf cfg).
            typedArrayGet data (int i * stepOf cfg data)
              = Some (data ! nat (int i * stepOf cfg data))"
    using read_in_range(1) [OF ne] by blast
  have full: "\<forall>b \<in> set (bars ops). barHeightOf b = Fin (height cfg)"
    if all: "\<forall>v \<in> set data. v = 255"
  proof
    fix b assume "b \<in> set (bars ops)"
    then obtain i where i: "i < nat (barCountOf cfg)" and b: "b = bars ops ! i"
      by (auto simp: in_set_conv_nth len)
    from read_in_range(2) [OF ne i] all
    have "data ! nat (int i * stepOf cfg data) = 255" by simp
    with nth i b show "barHeightOf b = Fin (height cfg)"
      by (simp add: barHeightOf_def)
  qed
  have bc: "barCountOf cfg = \<lfloor>width cfg / (barWidth cfg + barGap cfg)\<rfloor>"
    by (simp add: barCountOf_def)
  have st: "stepOf cfg data = int (length data) div barCountOf cfg" by (rule stepOf_div)
  from ops bc st len nth reads full show ?thesis by blast
qed

text \<open>The default canvas holds 133 bars.\<close>

lemma barCountOf_defaultConfig: "barCountOf defaultConfig = 133"
  by (simp add: barCountOf_def defaultConfig_def)

text \<open>The theorem at 1024 bins of 255 on the default canvas: 133 bars, all of them full.\<close>

theorem spectrum_bars_witness:
  "0 < barWidth defaultConfig + barGap defaultConfig
   \<and> replicate 1024 (255 :: byte) \<noteq> []
   \<and> (\<exists>ops. drawSpectrum defaultConfig (replicate 1024 255) = Some (ops, None)
         \<and> length (bars ops) = 133
         \<and> bars ops ! 132 = (Fin 792, Fin 0, Fin 4, Fin 200)
         \<and> list_all (\<lambda>b. barHeightOf b = Fin 200) (bars ops))"
proof -
  have pos: "0 < barWidth defaultConfig + barGap defaultConfig" by (simp add: defaultConfig_def)
  have ne: "replicate 1024 (255 :: byte) \<noteq> []" by simp
  from spectrum_bars_decimate_and_scale [OF pos ne]
  obtain ops where ops: "drawSpectrum defaultConfig (replicate 1024 255) = Some (ops, None)"
    and len: "length (bars ops) = nat (barCountOf defaultConfig)"
    and st: "stepOf defaultConfig (replicate 1024 255)
               = int (length (replicate 1024 (255 :: byte))) div barCountOf defaultConfig"
    and nth: "\<forall>i < nat (barCountOf defaultConfig).
            bars ops ! i =
              (Fin (real i * (barWidth defaultConfig + barGap defaultConfig)),
               Fin (height defaultConfig
                     - (real (unat (replicate 1024 (255 :: byte) ! nat (int i * stepOf defaultConfig (replicate 1024 255)))) / 255) * height defaultConfig),
               Fin (barWidth defaultConfig),
               Fin ((real (unat (replicate 1024 (255 :: byte) ! nat (int i * stepOf defaultConfig (replicate 1024 255)))) / 255) * height defaultConfig))"
    and full: "(\<forall>v \<in> set (replicate 1024 (255 :: byte)). v = 255) \<longrightarrow>
               (\<forall>b \<in> set (bars ops). barHeightOf b = Fin (height defaultConfig))"
    by blast
  from full have all: "list_all (\<lambda>b. barHeightOf b = Fin 200) (bars ops)"
    by (simp add: list_all_iff defaultConfig_def)
  from st have st7: "stepOf defaultConfig (replicate 1024 255) = 7"
    by (simp add: barCountOf_defaultConfig)
  have i: "(132::nat) < nat (barCountOf defaultConfig)" by (simp add: barCountOf_defaultConfig)
  from nth i have "bars ops ! 132 =
              (Fin (real (132::nat) * (barWidth defaultConfig + barGap defaultConfig)),
               Fin (height defaultConfig
                     - (real (unat (replicate 1024 (255 :: byte) ! nat (int 132 * stepOf defaultConfig (replicate 1024 255)))) / 255) * height defaultConfig),
               Fin (barWidth defaultConfig),
               Fin ((real (unat (replicate 1024 (255 :: byte) ! nat (int 132 * stepOf defaultConfig (replicate 1024 255)))) / 255) * height defaultConfig))"
    by simp
  then have "bars ops ! 132 = (Fin 792, Fin 0, Fin 4, Fin 200)"
    unfolding st7 by (simp add: defaultConfig_def)
  with pos ne ops len all show ?thesis by (simp add: barCountOf_defaultConfig)
qed

subsection \<open>C10: the decimated read stays in bounds\<close>

text \<open>
  C10. For a snapshot of length \<open>n \<ge> 1\<close> and a configuration with
  \<open>0 < barWidth + barGap \<le> width\<close>, there is at least one bar, every index
  \<open>i * \<lfloor>n / barCount\<rfloor>\<close> with \<open>0 \<le> i < barCount\<close> lies in \<open>[0, n)\<close>, so that the read
  yields a sample; the draw returns without an error and no bar of the drawing has the
  height \<^verbatim>\<open>NaN\<close> of an out-of-range read; also when \<open>barCount\<close> exceeds \<open>n\<close>.
\<close>

theorem decimated_reads_stay_in_bounds:
  "data \<noteq> [] \<Longrightarrow> 0 < barWidth cfg + barGap cfg \<Longrightarrow> barWidth cfg + barGap cfg \<le> width cfg \<Longrightarrow>
     1 \<le> barCountOf cfg
   \<and> (\<forall>i. 0 \<le> i \<and> i < barCountOf cfg \<longrightarrow>
         0 \<le> i * stepOf cfg data \<and> i * stepOf cfg data < int (length data)
         \<and> typedArrayGet data (i * stepOf cfg data) = Some (data ! nat (i * stepOf cfg data)))
   \<and> (\<exists>ops. drawSpectrum cfg data = Some (ops, None)
         \<and> length (bars ops) = nat (barCountOf cfg)
         \<and> (\<forall>b \<in> set (bars ops). barHeightOf b \<noteq> NaN))"
proof -
  assume ne: "data \<noteq> []" and pos: "0 < barWidth cfg + barGap cfg"
    and wide: "barWidth cfg + barGap cfg \<le> width cfg"
  have bc: "1 \<le> barCountOf cfg" using pos wide by (rule barCountOf_ge1)
  have idx: "\<forall>i. 0 \<le> i \<and> i < barCountOf cfg \<longrightarrow>
         0 \<le> i * stepOf cfg data \<and> i * stepOf cfg data < int (length data)
         \<and> typedArrayGet data (i * stepOf cfg data) = Some (data ! nat (i * stepOf cfg data))"
    using reads_in_range [OF ne, of cfg] by (simp add: typedArrayGet_def)
  from pos have nz: "barWidth cfg + barGap cfg \<noteq> 0" by simp
  from drawSpectrum_bars [OF ne nz]
  obtain ops where ops: "drawSpectrum cfg data = Some (ops, None)"
    and len: "length (bars ops) = nat (barCountOf cfg)"
    and nth: "\<forall>i < nat (barCountOf cfg). bars ops ! i =
                 (Fin (real i * (barWidth cfg + barGap cfg)),
                  Fin (height cfg
                        - (real (unat (data ! nat (int i * stepOf cfg data))) / 255) * height cfg),
                  Fin (barWidth cfg),
                  Fin ((real (unat (data ! nat (int i * stepOf cfg data))) / 255) * height cfg))"
    by blast
  have "\<forall>b \<in> set (bars ops). barHeightOf b \<noteq> NaN"
  proof
    fix b assume "b \<in> set (bars ops)"
    then obtain i where i: "i < nat (barCountOf cfg)" and b: "b = bars ops ! i"
      by (auto simp: in_set_conv_nth len)
    with nth show "barHeightOf b \<noteq> NaN" by (simp add: barHeightOf_def)
  qed
  with bc idx ops len show ?thesis by blast
qed

text \<open>The theorem at a snapshot of 2 samples and 133 bars: the step is 0, bar 132 reads index 0.\<close>

theorem decimated_reads_witness:
  "[7, 9 :: byte] \<noteq> []
   \<and> 0 < barWidth defaultConfig + barGap defaultConfig
   \<and> barWidth defaultConfig + barGap defaultConfig \<le> width defaultConfig
   \<and> barCountOf defaultConfig = 133
   \<and> stepOf defaultConfig [7, 9] = 0
   \<and> typedArrayGet [7, 9] (132 * stepOf defaultConfig [7, 9]) = Some 7"
proof -
  have a: "[7, 9 :: byte] \<noteq> []" by simp
  have b: "0 < barWidth defaultConfig + barGap defaultConfig" by (simp add: defaultConfig_def)
  have c: "barWidth defaultConfig + barGap defaultConfig \<le> width defaultConfig"
    by (simp add: defaultConfig_def)
  have st: "stepOf defaultConfig [7, 9] = 0"
    by (simp add: stepOf_div barCountOf_defaultConfig)
  from decimated_reads_stay_in_bounds [OF a b c]
  have "typedArrayGet [7, 9] (132 * stepOf defaultConfig [7, 9])
          = Some ([7, 9] ! nat (132 * stepOf defaultConfig [7, 9]))"
    by (simp add: barCountOf_defaultConfig)
  with a b c st show ?thesis by (simp add: barCountOf_defaultConfig)
qed

section \<open>Properties of the components\<close>

subsection \<open>C1: the microphone path and the audible output\<close>

text \<open>
  Both components that put a microphone stream into an audio graph connect the source to
  the analyser. RecordingVisualizer stops there, under the comment
  \<^verbatim>\<open>Don't connect to destination to avoid feedback\<close>; LiveAudioVisualizer goes on to
  connect the analyser to the destination of the context, in every start that succeeds.
\<close>

lemma startListening_success_connects:
  "startListening_try p s = (None, calls, s') \<Longrightarrow> connectsToDestination calls"
  by (auto simp: startListening_try_def connectsToDestination_def Let_def split: sum.splits)

lemma startRecording_try_no_destination:
  "\<not> connectsToDestination (fst (snd (startRecording_try p s)))"
  by (simp add: startRecording_try_def connectsToDestination_def Let_def
        split: sum.splits option.splits)

lemma startRecording_no_destination:
  "\<not> connectsToDestination (fst (startRecording p s))"
  using startRecording_try_no_destination [of p s]
  by (auto simp: startRecording_def connectsToDestination_def split: prod.splits option.splits)

text \<open>
  C1 asks that no node of the microphone path is ever connected to the audible output, in
  every component that acquires a microphone stream. LiveAudioVisualizer breaks it: when
  the microphone is granted, \<^verbatim>\<open>startListening\<close> connects the analyser fed by the
  stream to the destination.
\<close>

theorem live_microphone_graph_reaches_destination:
  "fst (startListening granted mounted) =
     [SetFftSize 30 2048, SetSmoothingTimeConstant 30 (8 / 10),
      Connect (StreamSource 40) (AnalyserNode 30),
      Connect (AnalyserNode 30) (Destination 20),
      ConsoleLog ''Live audio visualization started'']
   \<and> connectsToDestination (fst (startListening granted mounted))"
  by (simp add: startListening_def startListening_try_def granted_def mounted_def
        unmounted_def connectsToDestination_def Let_def)

subsection \<open>C4: a failed acquisition\<close>

lemma getUserMedia_rejects_throws:
  "getUserMedia p = Inl e \<Longrightarrow> startListening_try p s = (Some e, [], s\<lparr>error := None\<rparr>)"
  by (simp add: startListening_try_def Let_def)

lemma startListening_try_throws:
  assumes "fst (startListening_try p s) = Some e"
  shows "\<not> list_ex isRequestFrame (fst (snd (startListening_try p s)))"
    and "isListening (snd (snd (startListening_try p s))) = isListening s"
    and "animationFrameRef (snd (snd (startListening_try p s))) = animationFrameRef s"
  using assms
  by (auto simp: startListening_try_def Let_def split: sum.splits)

lemma cancelPendingFrame_no_request:
  "\<not> list_ex isRequestFrame (cancelPendingFrame r)" "\<not> list_ex isPaint (cancelPendingFrame r)"
  by (simp_all add: cancelPendingFrame_def split: option.splits)

text \<open>
  C4. When the \<^verbatim>\<open>try\<close> block of \<^verbatim>\<open>startListening\<close> throws (the rejection of
  \<^verbatim>\<open>getUserMedia\<close> first of all) in a component that is not listening, the function
  still returns: the error is caught, the message for the user is set, the component is
  in the Error state and not Active, no animation frame has been requested, and neither
  the render callback nor the effect that starts it draws or requests one afterwards.
\<close>

theorem failed_acquisition_leaves_error_state:
  "fst (startListening_try p s) = Some e \<Longrightarrow> \<not> isListening s \<Longrightarrow>
     (\<exists>calls s'. startListening p s = (calls, s')
        \<and> error s' = Some microphoneMessage
        \<and> isErrorState s' \<and> \<not> isActive s'
        \<and> animationFrameRef s' = animationFrameRef s
        \<and> \<not> list_ex isRequestFrame calls
        \<and> animate vt cfg (isListening s') fr s' = Some (None, [], s')
        \<and> (\<exists>calls'. renderEffect vt cfg fr s' = Some (None, calls', s')
              \<and> \<not> list_ex isRequestFrame calls' \<and> \<not> list_ex isPaint calls'))"
proof -
  assume thrown: "fst (startListening_try p s) = Some e" and idle: "\<not> isListening s"
  obtain calls0 s0 where t: "startListening_try p s = (Some e, calls0, s0)"
    using thrown by (cases "startListening_try p s") auto
  let ?calls = "calls0 @ [ConsoleError ''Error starting live audio:'']"
  let ?s' = "s0\<lparr>error := Some microphoneMessage\<rparr>"
  have r: "startListening p s = (?calls, ?s')" by (simp add: startListening_def t)
  from startListening_try_throws [OF thrown] t
  have nreq: "\<not> list_ex isRequestFrame calls0" and l: "isListening s0 = isListening s"
    and fr: "animationFrameRef s0 = animationFrameRef s" by simp_all
  have a: "error ?s' = Some microphoneMessage" by simp
  have b: "isErrorState ?s' \<and> \<not> isActive ?s'" using l idle by (simp add: isErrorState_def isActive_def)
  have c: "animationFrameRef ?s' = animationFrameRef s" using fr by simp
  have d: "\<not> list_ex isRequestFrame ?calls" using nreq by simp
  have e: "animate vt cfg (isListening ?s') fr ?s' = Some (None, [], ?s')"
    using l idle by (simp add: animate_def)
  have f: "renderEffect vt cfg fr ?s' = Some (None, cancelPendingFrame (animationFrameRef ?s'), ?s')"
    using l idle by (simp add: renderEffect_def)
  from r a b c d e f cancelPendingFrame_no_request show ?thesis by blast
qed

text \<open>The theorem at a denied permission on a freshly mounted component.\<close>

theorem failed_acquisition_witness:
  "fst (startListening_try denied mounted) = Some ''NotAllowedError''
   \<and> \<not> isListening mounted
   \<and> startListening denied mounted =
       ([ConsoleError ''Error starting live audio:''], mounted\<lparr>error := Some microphoneMessage\<rparr>)
   \<and> isErrorState (snd (startListening denied mounted))
   \<and> animate Waveform defaultConfig False silentFrame (snd (startListening denied mounted))
       = Some (None, [], snd (startListening denied mounted))"
proof -
  have a: "fst (startListening_try denied mounted) = Some ''NotAllowedError''"
    by (simp add: getUserMedia_rejects_throws denied_def)
  have b: "\<not> isListening mounted" by (simp add: mounted_def unmounted_def)
  have c: "startListening denied mounted =
       ([ConsoleError ''Error starting live audio:''], mounted\<lparr>error := Some microphoneMessage\<rparr>)"
    by (simp add: startListening_def getUserMedia_rejects_throws denied_def)
  from failed_acquisition_leaves_error_state [OF a b, of Waveform defaultConfig silentFrame]
  obtain calls s' where r: "startListening denied mounted = (calls, s')"
    and e: "isErrorState s'" and l: "\<not> isActive s'"
    and an: "animate Waveform defaultConfig (isListening s') silentFrame s' = Some (None, [], s')"
    by blast
  from l have "isListening s' = False" by (simp add: isActive_def)
  with an have "animate Waveform defaultConfig False silentFrame s' = Some (None, [], s')" by simp
  with a b c r e show ?thesis by simp
qed

subsection \<open>C9 and C5: teardown\<close>

lemma stopListening_trace_result:
  "stopListening_trace s =
     ((case animationFrameRef s of
         None \<Rightarrow> []
       | Some n \<Rightarrow> if n \<noteq> 0 then [Called (CancelAnimationFrame n)] else [])
      @ (case streamRef s of
           None \<Rightarrow> []
         | Some stream \<Rightarrow> [Called (StopTracks stream), Cleared StreamRef])
      @ (case sourceRef s of
           None \<Rightarrow> []
         | Some source \<Rightarrow> [Called (Disconnect (StreamSource source)), Cleared SourceRef])
      @ (case audioContextRef s of
           None \<Rightarrow> []
         | Some c \<Rightarrow> [Called (CloseContext c), Cleared AudioContextRef])
      @ [Cleared AnalyserRef, SetIsListening False,
         Called (ConsoleLog ''Live audio visualization stopped'')],
      s\<lparr>streamRef := None, sourceRef := None, audioContextRef := None,
         analyserRef := None, isListening := False\<rparr>)"
  by (cases "animationFrameRef s"; cases "streamRef s"; cases "sourceRef s";
      cases "audioContextRef s";
      simp add: stopListening_trace_def cancelFrame_def cancelPendingFrame_def releaseStream_def
        disconnectSource_def closeAudioContext_def clearAnalyser_def)

lemma callsOf_append: "callsOf (xs @ ys) = callsOf xs @ callsOf ys"
  by (induction xs rule: callsOf.induct) simp_all

lemma stopListening_calls:
  "fst (stopListening s) =
     (case animationFrameRef s of
        None \<Rightarrow> []
      | Some n \<Rightarrow> if n \<noteq> 0 then [CancelAnimationFrame n] else [])
     @ (case streamRef s of None \<Rightarrow> [] | Some stream \<Rightarrow> [StopTracks stream])
     @ (case sourceRef s of None \<Rightarrow> [] | Some source \<Rightarrow> [Disconnect (StreamSource source)])
     @ (case audioContextRef s of None \<Rightarrow> [] | Some c \<Rightarrow> [CloseContext c])
     @ [ConsoleLog ''Live audio visualization stopped'']"
  by (cases "animationFrameRef s"; cases "streamRef s"; cases "sourceRef s";
      cases "audioContextRef s";
      simp add: stopListening_def stopListening_trace_result)

lemma stopListening_result:
  "stopListening s =
     (cancelPendingFrame (animationFrameRef s)
      @ (case streamRef s of None \<Rightarrow> [] | Some stream \<Rightarrow> [StopTracks stream])
      @ (case sourceRef s of None \<Rightarrow> [] | Some source \<Rightarrow> [Disconnect (StreamSource source)])
      @ (case audioContextRef s of None \<Rightarrow> [] | Some c \<Rightarrow> [CloseContext c])
      @ [ConsoleLog ''Live audio visualization stopped''],
      s\<lparr>streamRef := None, sourceRef := None, audioContextRef := None,
         analyserRef := None, isListening := False\<rparr>)"
  by (cases "animationFrameRef s"; cases "streamRef s"; cases "sourceRef s";
      cases "audioContextRef s";
      simp add: stopListening_def stopListening_trace_result cancelPendingFrame_def)

text \<open>
  C9. \<^verbatim>\<open>stopListening\<close> does its steps in this order: it cancels the pending animation
  frame; stops the tracks of the stream and clears the stream ref; disconnects the source
  node and clears its ref; closes the audio context and clears its ref; and clears the
  analyser ref last, before it sets \<^verbatim>\<open>isListening\<close> to false. Each of the first four
  steps is done exactly when its own ref is set, whatever the others hold; the last is
  always done.
\<close>

theorem teardown_steps_in_order:
  "fst (stopListening_trace s) =
       (case animationFrameRef s of
          None \<Rightarrow> []
        | Some n \<Rightarrow> if n \<noteq> 0 then [Called (CancelAnimationFrame n)] else [])
     @ (case streamRef s of
          None \<Rightarrow> []
        | Some stream \<Rightarrow> [Called (StopTracks stream), Cleared StreamRef])
     @ (case sourceRef s of
          None \<Rightarrow> []
        | Some source \<Rightarrow> [Called (Disconnect (StreamSource source)), Cleared SourceRef])
     @ (case audioContextRef s of
          None \<Rightarrow> []
        | Some c \<Rightarrow> [Called (CloseContext c), Cleared AudioContextRef])
     @ [Cleared AnalyserRef, SetIsListening False,
        Called (ConsoleLog ''Live audio visualization stopped'')]
   \<and> snd (stopListening_trace s) =
       s\<lparr>streamRef := None, sourceRef := None, audioContextRef := None,
          analyserRef := None, isListening := False\<rparr>
   \<and> stopListening s = (callsOf (fst (stopListening_trace s)), snd (stopListening_trace s))
   \<and> fst (stopListening s) =
       (case animationFrameRef s of
          None \<Rightarrow> []
        | Some n \<Rightarrow> if n \<noteq> 0 then [CancelAnimationFrame n] else [])
     @ (case streamRef s of None \<Rightarrow> [] | Some stream \<Rightarrow> [StopTracks stream])
     @ (case sourceRef s of None \<Rightarrow> [] | Some source \<Rightarrow> [Disconnect (StreamSource source)])
     @ (case audioContextRef s of None \<Rightarrow> [] | Some c \<Rightarrow> [CloseContext c])
     @ [ConsoleLog ''Live audio visualization stopped'']"
proof -
  have effects: "fst (stopListening_trace s) =
       (case animationFrameRef s of
          None \<Rightarrow> []
        | Some n \<Rightarrow> if n \<noteq> 0 then [Called (CancelAnimationFrame n)] else [])
     @ (case streamRef s of
          None \<Rightarrow> []
        | Some stream \<Rightarrow> [Called (StopTracks stream), Cleared StreamRef])
     @ (case sourceRef s of
          None \<Rightarrow> []
        | Some source \<Rightarrow> [Called (Disconnect (StreamSource source)), Cleared SourceRef])
     @ (case audioContextRef s of
          None \<Rightarrow> []
        | Some c \<Rightarrow> [Called (CloseContext c), Cleared AudioContextRef])
     @ [Cleared AnalyserRef, SetIsListening False,
        Called (ConsoleLog ''Live audio visualization stopped'')]"
    by (simp add: stopListening_trace_result)
  have final: "snd (stopListening_trace s) =
       s\<lparr>streamRef := None, sourceRef := None, audioContextRef := None,
          analyserRef := None, isListening := False\<rparr>"
    by (simp add: stopListening_trace_result)
  have proj: "stopListening s = (callsOf (fst (stopListening_trace s)), snd (stopListening_trace s))"
    by (simp add: stopListening_def split: prod.splits)
  from effects final proj stopListening_calls [of s] show ?thesis by blast
qed

text \<open>The trace on a component that listens with a frame pending.\<close>

lemma teardown_of_listening_component:
  "fst (stopListening_trace (listeningComponent\<lparr>animationFrameRef := Some 7\<rparr>)) =
     [Called (CancelAnimationFrame 7),
      Called (StopTracks 10), Cleared StreamRef,
      Called (Disconnect (StreamSource 40)), Cleared SourceRef,
      Called (CloseContext 20), Cleared AudioContextRef,
      Cleared AnalyserRef, SetIsListening False,
      Called (ConsoleLog ''Live audio visualization stopped'')]"
  by (simp add: stopListening_trace_result listeningComponent_def mounted_def unmounted_def)

text \<open>
  C5. From any state, a second \<^verbatim>\<open>stopListening\<close> in a row leaves the state of the
  first unchanged; that state is Idle (not listening; stream, source, context and
  analyser refs cleared) and keeps the error message it had. The second run releases
  nothing: it only repeats the \<^verbatim>\<open>cancelAnimationFrame\<close> of the first (the ref keeps
  the id), which changes nothing in the callbacks the browser holds, and logs.
\<close>

theorem stopListening_twice:
  "snd (stopListening (snd (stopListening s))) = snd (stopListening s)
   \<and> isIdle (snd (stopListening s))
   \<and> error (snd (stopListening s)) = error s
   \<and> fst (stopListening (snd (stopListening s))) =
       cancelPendingFrame (animationFrameRef s) @ [ConsoleLog ''Live audio visualization stopped'']
   \<and> \<not> list_ex isRelease (fst (stopListening (snd (stopListening s))))
   \<and> pendingAfter (fst (stopListening (snd (stopListening s))))
         (pendingAfter (fst (stopListening s)) pending)
       = pendingAfter (fst (stopListening s)) pending"
proof -
  have a: "snd (stopListening (snd (stopListening s))) = snd (stopListening s)"
    by (simp add: stopListening_result)
  have b: "isIdle (snd (stopListening s))" by (simp add: stopListening_result isIdle_def)
  have c: "error (snd (stopListening s)) = error s" by (simp add: stopListening_result)
  have d: "fst (stopListening (snd (stopListening s))) =
       cancelPendingFrame (animationFrameRef s) @ [ConsoleLog ''Live audio visualization stopped'']"
    by (simp add: stopListening_result)
  have e: "\<not> list_ex isRelease (fst (stopListening (snd (stopListening s))))"
    unfolding d by (simp add: cancelPendingFrame_def split: option.splits)
  have f: "pendingAfter (fst (stopListening (snd (stopListening s))))
         (pendingAfter (fst (stopListening s)) pending)
       = pendingAfter (fst (stopListening s)) pending"
    unfolding d
    by (cases "animationFrameRef s"; cases "streamRef s"; cases "sourceRef s";
        cases "audioContextRef s"; simp add: stopListening_result cancelPendingFrame_def)
  from a b c d e f show ?thesis by blast
qed

subsection \<open>C6: the render callback and the render loop\<close>


lemma animateProps_calls_imply_checks:
  assumes "animateProps analyser playing vt cfg fr r = Some (thrown, calls, r')" "calls \<noteq> []"
  shows "playing \<and> analyser \<noteq> None"
  using assms by (auto simp: animateProps_def split: if_splits option.splits prod.splits)



















subsection \<open>C7: the oscillator and the utterance\<close>

text \<open>
  On the start event the handler starts the oscillator and sets the two modulation
  timers; on the end, pause or error event that follows, the handler stops the
  oscillator and clears exactly these two timers.
\<close>

lemma start_on_fresh_oscillator:
  assumes "\<not> oscillatorStarted u"
  shows "fire Started (f, g) (u, s) =
     (None,
      [OscillatorStart (oscillator u),
       SetInterval FrequencyModulation 100 f, SetInterval GainModulation 50 g,
       ConsoleLog ''Speech started with visualization''],
      u\<lparr>oscillatorStarted := True, frequencyModulation := Some f, gainModulation := Some g\<rparr>,
      s\<lparr>isPlaying := True, isPaused := False\<rparr>)"
  using assms
  by (simp add: fire_def onstart_def oscillatorStart_def startModulation_def Let_def)

lemma stop_events_clear_timers:
  assumes "oscillatorStarted u" "frequencyModulation u = Some f" "gainModulation u = Some g"
    and "f \<noteq> 0" "g \<noteq> 0"
  shows "fst (snd (fire Ended ids (u, s))) =
           [OscillatorStop (oscillator u), ClearInterval f, ClearInterval g,
            ConsoleLog ''Speech ended'']"
    and "fst (snd (fire Paused ids (u, s))) =
           [OscillatorStop (oscillator u), ClearInterval f, ClearInterval g,
            ConsoleLog ''Speech paused'']"
    and "fst (snd (fire (Failed e) ids (u, s))) =
           [OscillatorStop (oscillator u), ClearInterval f, ClearInterval g]"
  using assms
  by (simp_all add: fire_def onend_def onpause_def onerror_def oscillatorStop_def
        stopModulation_def clearIfSet_def Let_def)

text \<open>
  On the resume event the handler calls \<^verbatim>\<open>start()\<close> on the oscillator that the start
  event started: the call throws, and the timers are not set.
\<close>

lemma resume_on_started_oscillator_throws:
  assumes "oscillatorStarted u"
  shows "fire Resumed ids (u, s) = (Some ''InvalidStateError'', [], u, s\<lparr>isPaused := False\<rparr>)"
  using assms by (simp add: fire_def onresume_def oscillatorStart_def Let_def)

text \<open>
  \<^verbatim>\<open>stopSpeech\<close> cancels the utterance and stops the oscillator itself; the timers are
  left to the end or error handler that the cancelled utterance runs.
\<close>

lemma stopSpeech_calls:
  "fst (snd (stopSpeech True True s)) =
     SpeechCancel # (case sourceRef s of None \<Rightarrow> [] | Some source \<Rightarrow> [OscillatorStop source])"
  by (simp add: stopSpeech_def Let_def split: option.splits)

text \<open>
  C7 asks that the oscillator is started on the start and resume events of the utterance
  and stopped on its end, pause and error events, the modulation timers with it. The
  code does so on start, end, pause and error, and breaks it on resume: after a start
  (timers 3 and 4) and a pause, the resume handler throws at \<^verbatim>\<open>oscillator.start()\<close>
  and makes no call, so that the oscillator stays stopped and no timer is set.
\<close>

theorem resume_cannot_restart_oscillator:
  "fst (fire Started (3, 4) (fresh, speaking)) = None
   \<and> fst (snd (fire Started (3, 4) (fresh, speaking))) =
       [OscillatorStart 50, SetInterval FrequencyModulation 100 3,
        SetInterval GainModulation 50 4, ConsoleLog ''Speech started with visualization'']
   \<and> fst (fire Paused (0, 0) (snd (snd (fire Started (3, 4) (fresh, speaking))))) = None
   \<and> fst (snd (fire Paused (0, 0) (snd (snd (fire Started (3, 4) (fresh, speaking)))))) =
       [OscillatorStop 50, ClearInterval 3, ClearInterval 4, ConsoleLog ''Speech paused'']
   \<and> fst (fire Resumed (5, 6) startedThenPaused) = Some ''InvalidStateError''
   \<and> fst (snd (fire Resumed (5, 6) startedThenPaused)) = []
   \<and> \<not> oscillatorRunning
         (fst (snd (fire Started (3, 4) (fresh, speaking)))
          @ fst (snd (fire Paused (0, 0) (snd (snd (fire Started (3, 4) (fresh, speaking))))))
          @ fst (snd (fire Resumed (5, 6) startedThenPaused))) False
   \<and> timersAfter
         (fst (snd (fire Started (3, 4) (fresh, speaking)))
          @ fst (snd (fire Paused (0, 0) (snd (snd (fire Started (3, 4) (fresh, speaking))))))
          @ fst (snd (fire Resumed (5, 6) startedThenPaused))) [] = []"
  by (simp add: startedThenPaused_def fire_def onstart_def onpause_def onresume_def
        oscillatorStart_def oscillatorStop_def startModulation_def stopModulation_def
        clearIfSet_def fresh_def Let_def)

end
